theory Spec2Isabelle
  imports Main
begin

section \<open>Data model\<close>

type_synonym bytes = string

text \<open>\<open>entities.User\<close>: the authenticated principal.\<close>

record User =
  Username :: string

text \<open>\<open>GeneralConfig\<close> of \<open>service.go\<close>; it has no base URL field.\<close>

record GeneralConfig =
  AuthenticationServiceBaseURL :: string
  RequestBodyMaxSize :: int

text \<open>
  \<open>GeneralConfig\<close> of the variant of the service with a configurable base URL and JWT
  settings. Names of this variant carry the suffix \<open>_base\<close>.
\<close>

record GeneralConfig_base =
  BaseURL :: string
  JWTKey :: string
  JWTSigningMethod :: string
  AuthenticationServiceBaseURL_base :: string
  RequestBodyMaxSize_base :: int

record DataControllerConfig =
  Type :: string
  SimpleDataDir :: string
  SimpleTempDir :: string
  SimpleChecksum :: string
  SimpleVerifyClientChecksum :: bool

text \<open>
  \<open>Config\<close> holds pointers; a nil pointer is \<open>None\<close>. The \<open>Server\<close> field
  (\<open>*config.Server\<close>) is not read by the code modelled here and is kept as a flag
  telling whether it is set.
\<close>

record Config =
  Server :: bool
  General :: "GeneralConfig option"
  DataController :: "DataControllerConfig option"

record Config_base =
  Server_base :: bool
  General_base :: "GeneralConfig_base option"
  DataController_base :: "DataControllerConfig option"

datatype panic = NilDereference

section \<open>HTTP requests and the response writer\<close>

text \<open>
  \<open>http.Header\<close> and \<open>url.Values\<close> are \<open>map[string][]string\<close>. Header keys are
  stored in canonical MIME form.
\<close>

record Request =
  Method :: string
  Header :: "string \<rightharpoonup> string list"
  Query :: "string \<rightharpoonup> string list"
  PathVar :: string
  ContentLength :: int
  Body :: bytes

definition isLower :: "char \<Rightarrow> bool" where
  "isLower c = (97 \<le> (of_char c :: nat) \<and> (of_char c :: nat) \<le> 122)"

definition isUpper :: "char \<Rightarrow> bool" where
  "isUpper c = (65 \<le> (of_char c :: nat) \<and> (of_char c :: nat) \<le> 90)"

definition isDigit :: "char \<Rightarrow> bool" where
  "isDigit c = (48 \<le> (of_char c :: nat) \<and> (of_char c :: nat) \<le> 57)"

definition toUpper :: "char \<Rightarrow> char" where
  "toUpper c = (if isLower c then char_of ((of_char c :: nat) - 32) else c)"

definition toLower :: "char \<Rightarrow> char" where
  "toLower c = (if isUpper c then char_of ((of_char c :: nat) + 32) else c)"

text \<open>\<open>validHeaderFieldByte\<close>: the token characters of RFC 7230.\<close>

definition validHeaderFieldByte :: "char \<Rightarrow> bool" where
  "validHeaderFieldByte c =
     (isLower c \<or> isUpper c \<or> isDigit c \<or> c \<in> set ''!#$%&*+-.^_`|~'' \<or> of_char c = (39::nat))"

fun canonicalise :: "bool \<Rightarrow> string \<Rightarrow> string" where
  "canonicalise upper [] = []"
| "canonicalise upper (c # cs) =
     (if upper then toUpper c else toLower c) # canonicalise (c = CHR ''-'') cs"

text \<open>
  \<open>textproto.CanonicalMIMEHeaderKey\<close>: a key with a byte that is not a header field byte
  is returned unchanged; otherwise the first letter and every letter after a hyphen is
  upper case and the rest lower case.
\<close>

definition CanonicalMIMEHeaderKey :: "string \<Rightarrow> string" where
  "CanonicalMIMEHeaderKey s =
     (if list_all validHeaderFieldByte s then canonicalise True s else s)"

text \<open>\<open>Header.Get\<close>: the first value under the canonical key, \<open>""\<close> when there is none.\<close>

definition Header_Get :: "(string \<rightharpoonup> string list) \<Rightarrow> string \<Rightarrow> string" where
  "Header_Get h key =
     (case h (CanonicalMIMEHeaderKey key) of
        None \<Rightarrow> ''''
      | Some [] \<Rightarrow> ''''
      | Some (v # vs) \<Rightarrow> v)"

text \<open>\<open>Values.Get\<close>: the first value under the key as written, \<open>""\<close> when there is none.\<close>

definition Values_Get :: "(string \<rightharpoonup> string list) \<Rightarrow> string \<Rightarrow> string" where
  "Values_Get q key =
     (case q key of
        None \<Rightarrow> ''''
      | Some [] \<Rightarrow> ''''
      | Some (v # vs) \<Rightarrow> v)"

text \<open>
  What a request leaves behind, in order: calls of the storage collaborator, reads from
  the stream it returned, what went to the client, and reads from the body of the
  request (\<open>BodyRead\<close> carries the bytes read).
\<close>

datatype event =
    CallUpload User string bytes
  | CallDownload User string
  | ReadOk bytes
  | ReadEnd
  | ReadFailed string
  | HeaderWritten nat
  | BodyWritten bytes
  | BodyRead bytes

text \<open>
  The state a handler runs in: the response writer (\<open>Code\<close> is the committed status,
  \<open>None\<close> while no header has been written; \<open>RespBody\<close> the bytes the client received;
  \<open>WriteBudget\<close> the number of \<open>Write\<close> calls the client connection still accepts,
  \<open>None\<close> for a client that never disconnects), the per-request context store
  (\<open>context.Set(r, keys.UserKey, user)\<close>) and the trace of events.
\<close>

record State =
  Code :: "nat option"
  RespBody :: bytes
  WriteBudget :: "nat option"
  CtxUser :: "User option"
  Trace :: "event list"

type_synonym HandlerFunc = "Request \<Rightarrow> State \<Rightarrow> State"

definition StatusOK :: nat where "StatusOK = 200"
definition StatusUnauthorized :: nat where "StatusUnauthorized = 401"
definition StatusNotFound :: nat where "StatusNotFound = 404"
definition StatusRequestEntityTooLarge :: nat where "StatusRequestEntityTooLarge = 413"
definition StatusInternalServerError :: nat where "StatusInternalServerError = 500"

text \<open>\<open>http.StatusText\<close> on the codes used here; \<open>""\<close> for an unknown code.\<close>

definition StatusText :: "nat \<Rightarrow> string" where
  "StatusText c =
     (if c = 200 then ''OK''
      else if c = 401 then ''Unauthorized''
      else if c = 404 then ''Not Found''
      else if c = 413 then ''Request Entity Too Large''
      else if c = 500 then ''Internal Server Error''
      else '''')"

text \<open>\<open>ResponseWriter.WriteHeader\<close>: only the first call commits a status.\<close>

definition WriteHeader :: "nat \<Rightarrow> State \<Rightarrow> State" where
  "WriteHeader c s =
     (case Code s of
        None \<Rightarrow> s\<lparr>Code := Some c, Trace := Trace s @ [HeaderWritten c]\<rparr>
      | Some _ \<Rightarrow> s)"

text \<open>
  \<open>ResponseWriter.Write\<close>: commits status 200 when no header has been written, then
  sends the bytes; it fails, sending nothing, once the client is gone. The flag returned
  tells whether the write succeeded.
\<close>

definition Write :: "bytes \<Rightarrow> State \<Rightarrow> State \<times> bool" where
  "Write b s =
     (let s1 = WriteHeader StatusOK s in
      case WriteBudget s1 of
        None \<Rightarrow> (s1\<lparr>RespBody := RespBody s1 @ b, Trace := Trace s1 @ [BodyWritten b]\<rparr>, True)
      | Some 0 \<Rightarrow> (s1, False)
      | Some (Suc n) \<Rightarrow>
          (s1\<lparr>RespBody := RespBody s1 @ b, WriteBudget := Some n,
              Trace := Trace s1 @ [BodyWritten b]\<rparr>, True))"

text \<open>
  \<open>http.Error\<close>: writes the status, then the message and a newline; the result of the
  write is dropped.
\<close>

definition http_Error :: "string \<Rightarrow> nat \<Rightarrow> State \<Rightarrow> State" where
  "http_Error msg c s = fst (Write (msg @ [CHR 0x0A]) (WriteHeader c s))"

definition logEvent :: "event \<Rightarrow> State \<Rightarrow> State" where
  "logEvent ev s = s\<lparr>Trace := Trace s @ [ev]\<rparr>"

section \<open>Storage capability contract\<close>

text \<open>
  A readable stream as the gateway sees it: the chunks its successive reads return,
  then how it ends, at end-of-stream or with a read error. The reader of the tests that
  fails on every read has no chunk and ends with an error.
\<close>

datatype StreamEnd = EOF | Broken string

type_synonym Reader = "bytes list \<times> StreamEnd"

definition strings_NewReader :: "string \<Rightarrow> Reader" where
  "strings_NewReader str = (if str = [] then ([], EOF) else ([str], EOF))"

definition errorReader :: Reader where
  "errorReader = ([], Broken ''test error'')"

text \<open>
  The error kind of a storage outcome: \<open>codes.NewErr(codes.NotFound, "")\<close> is
  \<open>NotFound\<close>, any other error is \<open>Other\<close> with its message.
\<close>

datatype StorageError = NotFound | Other string

text \<open>
  The interface \<open>datacontroller.DataController\<close>, as the storage capability contract
  gives it: \<open>upload(identity, blobRef, boundedStream) -> (ok, errorKind)\<close> and
  \<open>download(identity, blobRef) -> (stream, errorKind)\<close>.
\<close>

record DataControllerI =
  UploadBLOB :: "User \<Rightarrow> string \<Rightarrow> bytes \<Rightarrow> StorageError option"
  DownloadBLOB :: "User \<Rightarrow> string \<Rightarrow> Reader \<times> StorageError option"

section \<open>The service\<close>

text \<open>
  \<open>Service\<close>. \<open>AuthVerify\<close> stands for \<open>s.SDK.Auth.Verify\<close>, which belongs to
  another package: it returns the user, or an error (\<open>Inl\<close>).
\<close>

record Service =
  SvcConfig :: "Config option"
  AuthVerify :: "string \<Rightarrow> string + User"
  SvcDataController :: DataControllerI

record Service_base =
  SvcConfig_base :: "Config_base option"
  SvcDataController_base :: DataControllerI

text \<open>\<open>Prefix\<close> of \<open>service.go\<close>: a fixed literal.\<close>

definition Prefix :: "Service \<Rightarrow> string" where
  "Prefix s = ''/clawio/v1/data''"

text \<open>
  \<open>Prefix\<close> of the variant with a configurable base URL; reading
  \<open>s.Config.General.BaseURL\<close> through a nil pointer panics.
\<close>

definition Prefix_base :: "Service_base \<Rightarrow> panic + string" where
  "Prefix_base s =
     (case SvcConfig_base s of
        None \<Rightarrow> Inl NilDereference
      | Some cfg \<Rightarrow>
          (case General_base cfg of
             None \<Rightarrow> Inl NilDereference
           | Some g \<Rightarrow>
               (let base = BaseURL g;
                    base = (if base = '''' then ''/'' else base)
                in Inr base)))"

text \<open>\<open>Middleware\<close>, the same in both variants.\<close>

definition Middleware :: "Service \<Rightarrow> HandlerFunc \<Rightarrow> HandlerFunc" where
  "Middleware s h = h"

definition Middleware_base :: "Service_base \<Rightarrow> HandlerFunc \<Rightarrow> HandlerFunc" where
  "Middleware_base s h = h"

definition getTokenFromRequest :: "Request \<Rightarrow> string" where
  "getTokenFromRequest r =
     (let t = Header_Get (Header r) ''token'' in
      if t \<noteq> '''' then t else Values_Get (Query r) ''token'')"

definition authenticateHandlerFunc :: "Service \<Rightarrow> HandlerFunc \<Rightarrow> HandlerFunc" where
  "authenticateHandlerFunc s handler r st =
     (let token = getTokenFromRequest r in
      case AuthVerify s token of
        Inl err \<Rightarrow> http_Error (StatusText StatusUnauthorized) StatusUnauthorized st
      | Inr user \<Rightarrow> handler r (st\<lparr>CtxUser := Some user\<rparr>))"

section \<open>Error taxonomy translator\<close>

datatype Failure = Unauthenticated | PayloadTooLarge | NotFoundFailure | Internal string

text \<open>
  Modelled from the spec: the translation of a storage error kind into the taxonomy is
  not in the sources at hand. \<open>NotFound\<close> stays what it is, every other failure is
  \<open>Internal\<close>.
\<close>

fun classify :: "StorageError \<Rightarrow> Failure" where
  "classify NotFound = NotFoundFailure"
| "classify (Other cause) = Internal cause"

text \<open>
  Modelled from the spec: the status of each failure. \<open>NotFound\<close> is 404,
  \<open>Unauthenticated\<close> 401, \<open>PayloadTooLarge\<close> 413, anything else 500.
\<close>

fun statusOf :: "Failure \<Rightarrow> nat" where
  "statusOf NotFoundFailure = StatusNotFound"
| "statusOf Unauthenticated = StatusUnauthorized"
| "statusOf PayloadTooLarge = StatusRequestEntityTooLarge"
| "statusOf (Internal cause) = StatusInternalServerError"

text \<open>
  Modelled from the spec: the response to a failure. \<open>NotFound\<close> has an empty body;
  the others carry the fixed textual reason of their status, never the cause.
\<close>

fun respondFailure :: "Failure \<Rightarrow> State \<Rightarrow> State" where
  "respondFailure NotFoundFailure st = WriteHeader StatusNotFound st"
| "respondFailure f st = http_Error (StatusText (statusOf f)) (statusOf f) st"

section \<open>Transfer handlers\<close>

text \<open>
  Modelled from the spec: the copy loop of the download handler, which is not in the
  sources at hand. It copies chunk after chunk until end-of-stream, a read error or a
  write error, and writes nothing after either error.
\<close>

fun copyRemainder :: "bytes list \<Rightarrow> StreamEnd \<Rightarrow> State \<Rightarrow> State" where
  "copyRemainder [] EOF st = logEvent ReadEnd st"
| "copyRemainder [] (Broken e) st = logEvent (ReadFailed e) st"
| "copyRemainder (c # cs) e st =
     (case Write c (logEvent (ReadOk c) st) of
        (st', True) \<Rightarrow> copyRemainder cs e st'
      | (st', False) \<Rightarrow> st')"

text \<open>
  Modelled from the spec: \<open>Download(Identity, BlobReference)\<close>, which is not in the
  sources at hand. (1) It asks the collaborator for a stream; a failure of that call is
  translated and answered at once. (2) It reads a first chunk before committing any
  status; a first read that fails is answered as an internal failure. (3) With the first
  read done it commits the success status, writes the chunk already read and copies the
  remainder. A stream that is at its end on the first read has not failed: the answer is
  the success status with an empty body.
\<close>

definition Download :: "DataControllerI \<Rightarrow> User \<Rightarrow> string \<Rightarrow> State \<Rightarrow> State" where
  "Download dc user blobRef st =
     (let st1 = logEvent (CallDownload user blobRef) st in
      case DownloadBLOB dc user blobRef of
        (reader, Some err) \<Rightarrow> respondFailure (classify err) st1
      | ((chunks, e), None) \<Rightarrow>
          (case chunks of
             [] \<Rightarrow>
               (case e of
                  Broken cause \<Rightarrow> respondFailure (Internal cause) (logEvent (ReadFailed cause) st1)
                | EOF \<Rightarrow> WriteHeader StatusOK (logEvent ReadEnd st1))
           | c # cs \<Rightarrow>
               (case Write c (WriteHeader StatusOK (logEvent (ReadOk c) st1)) of
                  (st2, True) \<Rightarrow> copyRemainder cs e st2
                | (st2, False) \<Rightarrow> st2)))"

text \<open>
  Modelled from the spec: \<open>Upload(Identity, BlobReference, bodyStream, contentLength)\<close>,
  which is not in the sources at hand. (1) A declared body size above the maximum is
  rejected with \<open>PayloadTooLarge\<close> before any byte is read. The actual size of a body
  is known only by reading it: the body is read through a cap that stops at the first
  byte beyond the maximum, and a body that reaches that byte is rejected with
  \<open>PayloadTooLarge\<close>, whatever its declared length and with no collaborator call.
  (2) A body within the maximum goes to the collaborator. (3) Its outcome is translated;
  success is the success status with no body.
\<close>

definition Upload ::
  "int \<Rightarrow> DataControllerI \<Rightarrow> User \<Rightarrow> string \<Rightarrow> Request \<Rightarrow> State \<Rightarrow> State" where
  "Upload maxSize dc user blobRef r st =
     (if maxSize < ContentLength r then respondFailure PayloadTooLarge st
      else
        (let body = take (nat (maxSize + 1)) (Body r);
             st1 = logEvent (BodyRead body) st
         in if maxSize < int (length body) then respondFailure PayloadTooLarge st1
            else
              (let st2 = logEvent (CallUpload user blobRef body) st1
               in case UploadBLOB dc user blobRef body of
                    Some err \<Rightarrow> respondFailure (classify err) st2
                  | None \<Rightarrow> WriteHeader StatusOK st2)))"

text \<open>
  Modelled from the spec: the handlers \<open>s.Download\<close> and \<open>s.Upload\<close> that
  \<open>Endpoints\<close> registers. They take the identity from the request context and the blob
  reference from the path variable; without an identity, or with a nil configuration,
  the handler stops before it responds.
\<close>

definition DownloadHandler :: "Service \<Rightarrow> HandlerFunc" where
  "DownloadHandler s r st =
     (case CtxUser st of
        None \<Rightarrow> st
      | Some user \<Rightarrow> Download (SvcDataController s) user (PathVar r) st)"

definition UploadHandler :: "Service \<Rightarrow> HandlerFunc" where
  "UploadHandler s r st =
     (case CtxUser st of
        None \<Rightarrow> st
      | Some user \<Rightarrow>
          (case SvcConfig s of
             None \<Rightarrow> st
           | Some cfg \<Rightarrow>
               (case General cfg of
                  None \<Rightarrow> st
                | Some g \<Rightarrow>
                    Upload (RequestBodyMaxSize g) (SvcDataController s) user (PathVar r) r st)))"

section \<open>Endpoints\<close>

text \<open>
  \<open>Endpoints\<close> of \<open>service.go\<close>: path template, method, handler.
  \<open>prometheus.InstrumentHandlerFunc\<close> and \<open>prometheus.Handler\<close> belong to another
  package and are parameters.
\<close>

definition Endpoints ::
  "(string \<Rightarrow> HandlerFunc \<Rightarrow> HandlerFunc) \<Rightarrow> HandlerFunc \<Rightarrow> Service \<Rightarrow>
   (string \<times> (string \<times> HandlerFunc) list) list" where
  "Endpoints InstrumentHandlerFunc prometheusHandler s =
     [(''/metrics'', [(''GET'', prometheusHandler)]),
      (''/upload/{path:.*}'',
         [(''PUT'', InstrumentHandlerFunc ''/upload'' (authenticateHandlerFunc s (UploadHandler s)))]),
      (''/download/{path:.*}'',
         [(''GET'', InstrumentHandlerFunc ''/download'' (authenticateHandlerFunc s (DownloadHandler s)))])]"

text \<open>The handler registered for a path template and a method.\<close>

definition endpoint ::
  "(string \<times> (string \<times> HandlerFunc) list) list \<Rightarrow> string \<Rightarrow> string \<Rightarrow> HandlerFunc option" where
  "endpoint eps path method =
     (case map_of eps path of
        None \<Rightarrow> None
      | Some methods \<Rightarrow> map_of methods method)"

text \<open>The collaborator calls in a trace.\<close>

fun isCall :: "event \<Rightarrow> bool" where
  "isCall (CallUpload u p b) = True"
| "isCall (CallDownload u p) = True"
| "isCall ev = False"

definition calls :: "State \<Rightarrow> event list" where
  "calls st = filter isCall (Trace st)"

section \<open>Observations on traces\<close>

text \<open>The events a run has added to the trace of the state it started in.\<close>

definition newEvents :: "State \<Rightarrow> State \<Rightarrow> event list" where
  "newEvents st res = drop (length (Trace st)) (Trace res)"

fun isResponse :: "event \<Rightarrow> bool" where
  "isResponse (HeaderWritten c) = True"
| "isResponse (BodyWritten b) = True"
| "isResponse ev = False"

fun isBodyWritten :: "event \<Rightarrow> bool" where
  "isBodyWritten (BodyWritten b) = True"
| "isBodyWritten ev = False"




text \<open>
  The failure a download outcome stands for, if any: an error of the call itself, or a
  stream whose first read fails.
\<close>

fun downloadFailure :: "Reader \<times> StorageError option \<Rightarrow> Failure option" where
  "downloadFailure (reader, Some err) = Some (classify err)"
| "downloadFailure (([], Broken cause), None) = Some (Internal cause)"
| "downloadFailure (reader, None) = None"



section \<open>Fixtures of the test suite\<close>

definition testUser :: User where
  "testUser = \<lparr>Username = ''test''\<rparr>"

definition mockVerify :: "string \<Rightarrow> string + User" where
  "mockVerify token = (if token = ''valid'' then Inr testUser else Inl ''invalid token'')"

definition mockDataController :: "Reader \<Rightarrow> StorageError option \<Rightarrow> DataControllerI" where
  "mockDataController reader err =
     \<lparr>UploadBLOB = (\<lambda>user blobRef body. None), DownloadBLOB = (\<lambda>user blobRef. (reader, err))\<rparr>"

definition testService :: "DataControllerI \<Rightarrow> Service" where
  "testService dc =
     \<lparr>SvcConfig = Some \<lparr>Server = True,
                         General = Some \<lparr>AuthenticationServiceBaseURL = '''', RequestBodyMaxSize = 1024\<rparr>,
                         DataController = Some \<lparr>Type = ''simple'', SimpleDataDir = ''/tmp'',
                                                SimpleTempDir = ''/tmp'', SimpleChecksum = '''',
                                                SimpleVerifyClientChecksum = False\<rparr>\<rparr>,
      AuthVerify = mockVerify,
      SvcDataController = dc\<rparr>"

definition testGeneral_base :: "string \<Rightarrow> GeneralConfig_base" where
  "testGeneral_base base =
     \<lparr>BaseURL = base, JWTKey = ''secret'', JWTSigningMethod = ''HS256'',
      AuthenticationServiceBaseURL_base = '''', RequestBodyMaxSize_base = 1024\<rparr>"

definition testConfig_base :: "string \<Rightarrow> Config_base" where
  "testConfig_base base =
     \<lparr>Server_base = True, General_base = Some (testGeneral_base base),
      DataController_base = Some \<lparr>Type = ''simple'', SimpleDataDir = ''/tmp'',
                                  SimpleTempDir = ''/tmp'', SimpleChecksum = '''',
                                  SimpleVerifyClientChecksum = False\<rparr>\<rparr>"

definition testService_base :: "string \<Rightarrow> Service_base" where
  "testService_base base =
     \<lparr>SvcConfig_base = Some (testConfig_base base),
      SvcDataController_base = mockDataController errorReader None\<rparr>"

definition testRequest :: "string \<Rightarrow> string \<Rightarrow> bytes \<Rightarrow> Request" where
  "testRequest method token body =
     \<lparr>Method = method, Header = [''Token'' \<mapsto> [token]], Query = Map.empty,
      PathVar = ''myblob'', ContentLength = int (length body), Body = body\<rparr>"

definition freshState :: State where
  "freshState = \<lparr>Code = None, RespBody = [], WriteBudget = None, CtxUser = None, Trace = []\<rparr>"

section \<open>The response writer\<close>

lemma CanonicalMIMEHeaderKey_token: "CanonicalMIMEHeaderKey ''token'' = ''Token''"
  by code_simp

lemma Code_http_Error: "Code st = None \<Longrightarrow> Code (http_Error msg c st) = Some c"
  by (simp add: http_Error_def Write_def WriteHeader_def Let_def split: option.splits nat.splits)

lemma CtxUser_WriteHeader: "CtxUser (WriteHeader c st) = CtxUser st"
  by (simp add: WriteHeader_def split: option.splits)

lemma CtxUser_Write: "CtxUser (fst (Write b st)) = CtxUser st"
  by (simp add: Write_def Let_def CtxUser_WriteHeader split: option.splits nat.splits)

lemma CtxUser_http_Error: "CtxUser (http_Error msg c st) = CtxUser st"
  by (simp add: http_Error_def CtxUser_Write CtxUser_WriteHeader)

lemma calls_WriteHeader: "calls (WriteHeader c st) = calls st"
  by (simp add: calls_def WriteHeader_def split: option.splits)

lemma calls_Write: "calls (fst (Write b st)) = calls st"
  using calls_WriteHeader [of StatusOK st]
  by (simp add: calls_def Write_def Let_def split: option.splits nat.splits)

lemma calls_http_Error: "calls (http_Error msg c st) = calls st"
  by (simp add: http_Error_def calls_Write calls_WriteHeader)

lemma getToken_testRequest: "getTokenFromRequest (testRequest m (c # cs) b) = c # cs"
  by (simp add: getTokenFromRequest_def Header_Get_def CanonicalMIMEHeaderKey_token
        testRequest_def)

section \<open>The service of \<open>service.go\<close>\<close>

text \<open>
  C10. \<open>Middleware\<close> returns the handler it is given, in both variants of the service;
  the access guard is put around the upload and the download handler by \<open>Endpoints\<close>,
  and the metrics route is registered without it.
\<close>

theorem Middleware_identity:
  "Middleware s h = h \<and> Middleware_base s' h = h
   \<and> endpoint (Endpoints instrument metrics s) ''/upload/{path:.*}'' ''PUT''
       = Some (instrument ''/upload'' (authenticateHandlerFunc s (UploadHandler s)))
   \<and> endpoint (Endpoints instrument metrics s) ''/download/{path:.*}'' ''GET''
       = Some (instrument ''/download'' (authenticateHandlerFunc s (DownloadHandler s)))
   \<and> endpoint (Endpoints instrument metrics s) ''/metrics'' ''GET'' = Some metrics"
  by (simp add: Middleware_def Middleware_base_def endpoint_def Endpoints_def)

text \<open>
  C8. \<open>getTokenFromRequest\<close> returns the value of the \<open>token\<close> header when that is not
  empty, and the value of the \<open>token\<close> query parameter otherwise. The header value is
  the first one stored under the canonical key \<open>Token\<close>, the query value the first one
  stored under \<open>token\<close>; a missing value is the empty string.
\<close>

theorem getTokenFromRequest_header_then_query:
  "getTokenFromRequest r =
     (if Header_Get (Header r) ''token'' \<noteq> '''' then Header_Get (Header r) ''token''
      else Values_Get (Query r) ''token'')
   \<and> Header_Get (Header r) ''token'' =
       (case Header r ''Token'' of None \<Rightarrow> '''' | Some [] \<Rightarrow> '''' | Some (v # vs) \<Rightarrow> v)
   \<and> Values_Get (Query r) ''token'' =
       (case Query r ''token'' of None \<Rightarrow> '''' | Some [] \<Rightarrow> '''' | Some (v # vs) \<Rightarrow> v)"
  by (simp add: getTokenFromRequest_def Let_def Header_Get_def Values_Get_def
        CanonicalMIMEHeaderKey_token)

text \<open>
  C3. The access guard, on a response that is not yet committed. When verification of the
  token fails, the result is the 401 response alone: it does not depend on the wrapped
  handler, its status is 401 and no collaborator call is added. When verification
  succeeds, the result is one run of the wrapped handler, on the state with the user
  attached. The handlers registered for the upload and the download route are the upload
  and the download handler inside this guard, inside the instrumentation.
\<close>

theorem authenticateHandlerFunc_guard:
  assumes "Code st = None"
  shows "(case AuthVerify s (getTokenFromRequest r) of
            Inl err \<Rightarrow>
              authenticateHandlerFunc s h r st
                = http_Error (StatusText StatusUnauthorized) StatusUnauthorized st
              \<and> Code (authenticateHandlerFunc s h r st) = Some 401
              \<and> calls (authenticateHandlerFunc s h r st) = calls st
          | Inr user \<Rightarrow>
              authenticateHandlerFunc s h r st = h r (st\<lparr>CtxUser := Some user\<rparr>))
         \<and> endpoint (Endpoints instrument metrics s) ''/upload/{path:.*}'' ''PUT''
             = Some (instrument ''/upload'' (authenticateHandlerFunc s (UploadHandler s)))
         \<and> endpoint (Endpoints instrument metrics s) ''/download/{path:.*}'' ''GET''
             = Some (instrument ''/download'' (authenticateHandlerFunc s (DownloadHandler s)))"
  using assms
  by (simp add: authenticateHandlerFunc_def Code_http_Error calls_http_Error
        StatusUnauthorized_def endpoint_def Endpoints_def split: sum.splits)

theorem authenticateHandlerFunc_guard_witness:
  "Code freshState = None
   \<and> AuthVerify (testService (mockDataController (strings_NewReader ''1'') None))
        (getTokenFromRequest (testRequest ''GET'' ''fake'' [])) = Inl ''invalid token''
   \<and> Code (authenticateHandlerFunc (testService (mockDataController (strings_NewReader ''1'') None))
        (DownloadHandler (testService (mockDataController (strings_NewReader ''1'') None)))
        (testRequest ''GET'' ''fake'' []) freshState) = Some 401
   \<and> calls (authenticateHandlerFunc (testService (mockDataController (strings_NewReader ''1'') None))
        (DownloadHandler (testService (mockDataController (strings_NewReader ''1'') None)))
        (testRequest ''GET'' ''fake'' []) freshState) = []
   \<and> AuthVerify (testService (mockDataController (strings_NewReader ''1'') None))
        (getTokenFromRequest (testRequest ''GET'' ''valid'' [])) = Inr testUser
   \<and> authenticateHandlerFunc (testService (mockDataController (strings_NewReader ''1'') None))
        (DownloadHandler (testService (mockDataController (strings_NewReader ''1'') None)))
        (testRequest ''GET'' ''valid'' []) freshState
       = DownloadHandler (testService (mockDataController (strings_NewReader ''1'') None))
           (testRequest ''GET'' ''valid'' []) (freshState\<lparr>CtxUser := Some testUser\<rparr>)"
proof -
  let ?s = "testService (mockDataController (strings_NewReader ''1'') None)"
  have fresh: "Code freshState = None"
    by (simp add: freshState_def)
  have bad: "AuthVerify ?s (getTokenFromRequest (testRequest ''GET'' ''fake'' [])) = Inl ''invalid token''"
    by (simp add: getToken_testRequest testService_def mockVerify_def)
  have good: "AuthVerify ?s (getTokenFromRequest (testRequest ''GET'' ''valid'' [])) = Inr testUser"
    by (simp add: getToken_testRequest testService_def mockVerify_def)
  have nocall: "calls freshState = []"
    by (simp add: calls_def freshState_def)
  show ?thesis
    using authenticateHandlerFunc_guard [where st = freshState and s = ?s
          and r = "testRequest ''GET'' ''fake'' []" and h = "DownloadHandler ?s"]
      authenticateHandlerFunc_guard [where st = freshState and s = ?s
          and r = "testRequest ''GET'' ''valid'' []" and h = "DownloadHandler ?s"]
    by (simp add: fresh bad good nocall Code_http_Error calls_http_Error StatusUnauthorized_def)
qed

text \<open>
  C6. In a run of the access guard that starts with no identity in the context: when the
  verifier returns an error no identity is attached, and when it returns a user the
  wrapped handler runs on the state with that user attached. Seen through a handler that
  does nothing, an identity is in the context afterwards if and only if the verifier
  returned no error.
\<close>

theorem identity_attached_iff_verified:
  assumes "CtxUser st = None"
  shows "(case AuthVerify s (getTokenFromRequest r) of
            Inl err \<Rightarrow> CtxUser (authenticateHandlerFunc s h r st) = None
          | Inr user \<Rightarrow>
              authenticateHandlerFunc s h r st = h r (st\<lparr>CtxUser := Some user\<rparr>))
         \<and> (CtxUser (authenticateHandlerFunc s (\<lambda>r st. st) r st) = None)
             = isl (AuthVerify s (getTokenFromRequest r))"
  using assms
  by (simp add: authenticateHandlerFunc_def CtxUser_http_Error split: sum.splits)

theorem identity_attached_iff_verified_witness:
  "CtxUser freshState = None
   \<and> isl (AuthVerify (testService (mockDataController errorReader None))
        (getTokenFromRequest (testRequest ''PUT'' ''fake'' [])))
   \<and> CtxUser (authenticateHandlerFunc (testService (mockDataController errorReader None))
        (\<lambda>r st. st) (testRequest ''PUT'' ''fake'' []) freshState) = None
   \<and> \<not> isl (AuthVerify (testService (mockDataController errorReader None))
        (getTokenFromRequest (testRequest ''PUT'' ''valid'' [])))
   \<and> CtxUser (authenticateHandlerFunc (testService (mockDataController errorReader None))
        (\<lambda>r st. st) (testRequest ''PUT'' ''valid'' []) freshState) \<noteq> None"
proof -
  let ?s = "testService (mockDataController errorReader None)"
  have fresh: "CtxUser freshState = None"
    by (simp add: freshState_def)
  have bad: "AuthVerify ?s (getTokenFromRequest (testRequest ''PUT'' ''fake'' [])) = Inl ''invalid token''"
    by (simp add: getToken_testRequest testService_def mockVerify_def)
  have good: "AuthVerify ?s (getTokenFromRequest (testRequest ''PUT'' ''valid'' [])) = Inr testUser"
    by (simp add: getToken_testRequest testService_def mockVerify_def)
  show ?thesis
    using identity_attached_iff_verified [where st = freshState and s = ?s
          and r = "testRequest ''PUT'' ''fake'' []" and h = "\<lambda>r st. st"]
      identity_attached_iff_verified [where st = freshState and s = ?s
          and r = "testRequest ''PUT'' ''valid'' []" and h = "\<lambda>r st. st"]
    by (simp add: fresh bad good CtxUser_http_Error)
qed

section \<open>Prefix resolution\<close>

text \<open>
  C7, as amended. In the variant with a configurable base URL, and with the
  configuration pointers set, \<open>Prefix\<close> yields \<open>/\<close> when \<open>BaseURL\<close> is empty and the
  configured \<open>BaseURL\<close> otherwise; so it yields \<open>/\<close> exactly when \<open>BaseURL\<close> is empty or
  is itself \<open>/\<close>. In \<open>service.go\<close>, \<open>Prefix\<close> yields the fixed literal
  \<open>/clawio/v1/data\<close> for every service.
\<close>

theorem Prefix_base_resolution:
  assumes "SvcConfig_base s = Some cfg" and "General_base cfg = Some g"
  shows "Prefix_base s = Inr (if BaseURL g = '''' then ''/'' else BaseURL g)
         \<and> (Prefix_base s = Inr ''/'') = (BaseURL g = '''' \<or> BaseURL g = ''/'')
         \<and> Prefix s0 = ''/clawio/v1/data''"
  using assms by (simp add: Prefix_base_def Prefix_def)

theorem Prefix_base_resolution_witness:
  "SvcConfig_base (testService_base '''') = Some (testConfig_base '''')
   \<and> General_base (testConfig_base '''') = Some (testGeneral_base '''')
   \<and> Prefix_base (testService_base '''') = Inr ''/''
   \<and> SvcConfig_base (testService_base ''/data'') = Some (testConfig_base ''/data'')
   \<and> General_base (testConfig_base ''/data'') = Some (testGeneral_base ''/data'')
   \<and> Prefix_base (testService_base ''/data'') = Inr ''/data''
   \<and> Prefix (testService (mockDataController errorReader None)) = ''/clawio/v1/data''"
proof -
  have c: "SvcConfig_base (testService_base b) = Some (testConfig_base b)" for b
    by (simp add: testService_base_def)
  have g: "General_base (testConfig_base b) = Some (testGeneral_base b)" for b
    by (simp add: testConfig_base_def)
  have u: "BaseURL (testGeneral_base b) = b" for b
    by (simp add: testGeneral_base_def)
  show ?thesis
    using Prefix_base_resolution [OF c g, where b1 = "''''"
          and ?s0.0 = "testService (mockDataController errorReader None)"]
      Prefix_base_resolution [OF c g, where b1 = "''/data''"
          and ?s0.0 = "testService (mockDataController errorReader None)"]
    by (simp add: c g u)
qed

text \<open>
  The claim as stated fails: with the base URL \<open>/\<close> configured, \<open>Prefix\<close> yields \<open>/\<close>
  although an explicit base URL is configured; and \<open>Prefix\<close> of \<open>service.go\<close>, which
  has no base URL to configure, does not yield \<open>/\<close>.
\<close>

theorem Prefix_counterexample:
  "Prefix_base (testService_base ''/'') = Inr ''/''
   \<and> SvcConfig_base (testService_base ''/'') = Some (testConfig_base ''/'')
   \<and> General_base (testConfig_base ''/'') = Some (testGeneral_base ''/'')
   \<and> BaseURL (testGeneral_base ''/'') \<noteq> ''''
   \<and> Prefix (testService (mockDataController errorReader None)) \<noteq> ''/''"
  by (simp add: Prefix_base_def Prefix_def testService_base_def testConfig_base_def
        testGeneral_base_def)

section \<open>Facts about the response writer and the trace\<close>

lemma WriteHeader_fresh:
  "Code st = None \<Longrightarrow> WriteHeader c st = st\<lparr>Code := Some c, Trace := Trace st @ [HeaderWritten c]\<rparr>"
  by (simp add: WriteHeader_def)

lemma WriteHeader_committed: "Code st = Some c' \<Longrightarrow> WriteHeader c st = st"
  by (simp add: WriteHeader_def)

lemma logEvent_fields:
  "Code (logEvent ev st) = Code st"
  "RespBody (logEvent ev st) = RespBody st"
  "WriteBudget (logEvent ev st) = WriteBudget st"
  "CtxUser (logEvent ev st) = CtxUser st"
  "Trace (logEvent ev st) = Trace st @ [ev]"
  by (simp_all add: logEvent_def)

lemma Write_committed:
  "Code st = Some c \<Longrightarrow>
   Write b st =
     (case WriteBudget st of
        None \<Rightarrow> (st\<lparr>RespBody := RespBody st @ b, Trace := Trace st @ [BodyWritten b]\<rparr>, True)
      | Some 0 \<Rightarrow> (st, False)
      | Some (Suc n) \<Rightarrow>
          (st\<lparr>RespBody := RespBody st @ b, WriteBudget := Some n,
              Trace := Trace st @ [BodyWritten b]\<rparr>, True))"
  by (simp add: Write_def WriteHeader_committed)

lemma Trace_http_Error:
  "Code st = None \<Longrightarrow>
   Trace (http_Error msg c st) =
     Trace st @ HeaderWritten c #
       (if WriteBudget st = Some 0 then [] else [BodyWritten (msg @ [CHR 0x0A])])"
  by (simp add: http_Error_def WriteHeader_fresh Write_committed split: option.splits nat.splits)

lemma RespBody_http_Error:
  "RespBody (http_Error msg c st) =
     RespBody st @ (if WriteBudget st = Some 0 then [] else msg @ [CHR 0x0A])"
  by (simp add: http_Error_def Write_def WriteHeader_def Let_def split: option.splits nat.splits)

lemma Code_respondFailure: "Code st = None \<Longrightarrow> Code (respondFailure f st) = Some (statusOf f)"
  by (cases f) (simp_all add: Code_http_Error WriteHeader_fresh)

lemma Trace_respondFailure:
  "Code st = None \<Longrightarrow>
   Trace (respondFailure f st) =
     Trace st @ HeaderWritten (statusOf f) #
       (if f = NotFoundFailure \<or> WriteBudget st = Some 0 then []
        else [BodyWritten (StatusText (statusOf f) @ [CHR 0x0A])])"
  by (cases f) (simp_all add: Trace_http_Error WriteHeader_fresh)

lemma RespBody_respondFailure:
  "RespBody (respondFailure f st) =
     RespBody st @
       (if f = NotFoundFailure \<or> WriteBudget st = Some 0 then []
        else StatusText (statusOf f) @ [CHR 0x0A])"
  by (cases f) (simp_all add: RespBody_http_Error WriteHeader_def split: option.splits)


lemma newEvents_append: "Trace res = Trace st @ evs \<Longrightarrow> newEvents st res = evs"
  by (simp add: newEvents_def)



section \<open>The download handler\<close>

lemma Download_call_failed:
  "DownloadBLOB dc user blobRef = (reader, Some err) \<Longrightarrow>
   Download dc user blobRef st = respondFailure (classify err) (logEvent (CallDownload user blobRef) st)"
  by (simp add: Download_def Let_def)

lemma Download_first_read_failed:
  "DownloadBLOB dc user blobRef = (([], Broken cause), None) \<Longrightarrow>
   Download dc user blobRef st =
     respondFailure (Internal cause)
       (logEvent (ReadFailed cause) (logEvent (CallDownload user blobRef) st))"
  by (simp add: Download_def Let_def)

lemma Download_empty_stream:
  "DownloadBLOB dc user blobRef = (([], EOF), None) \<Longrightarrow>
   Download dc user blobRef st =
     WriteHeader StatusOK (logEvent ReadEnd (logEvent (CallDownload user blobRef) st))"
  by (simp add: Download_def Let_def)

lemma Download_streaming:
  "DownloadBLOB dc user blobRef = ((c # cs, e), None) \<Longrightarrow>
   Download dc user blobRef st =
     (case Write c (WriteHeader StatusOK (logEvent (ReadOk c) (logEvent (CallDownload user blobRef) st))) of
        (st2, True) \<Rightarrow> copyRemainder cs e st2
      | (st2, False) \<Rightarrow> st2)"
  by (simp add: Download_def Let_def)


lemma Download_failure_events:
  assumes "Code st = None" and "downloadFailure (DownloadBLOB dc user blobRef) = Some f"
  shows "\<exists>reads. Download dc user blobRef st = respondFailure f (foldl (\<lambda>s ev. logEvent ev s) st (CallDownload user blobRef # reads))
           \<and> list_all (\<lambda>ev. \<not> isResponse ev) reads"
proof -
  obtain chunks e err where d: "DownloadBLOB dc user blobRef = ((chunks, e), err)"
    by (metis surj_pair)
  show ?thesis
  proof (cases err)
    case (Some x)
    with d assms(2) have "f = classify x" by simp
    with d Some show ?thesis
      by (intro exI [of _ "[]"]) (simp add: Download_call_failed)
  next
    case None
    with d assms(2) obtain cause where c: "chunks = []" "e = Broken cause" "f = Internal cause"
      by (cases chunks; cases e) simp_all
    with d None show ?thesis
      by (intro exI [of _ "[ReadFailed cause]"]) (simp add: Download_first_read_failed)
  qed
qed






lemma foldl_logEvent_fields:
  "Code (foldl (\<lambda>s ev. logEvent ev s) st evs) = Code st"
  "RespBody (foldl (\<lambda>s ev. logEvent ev s) st evs) = RespBody st"
  "WriteBudget (foldl (\<lambda>s ev. logEvent ev s) st evs) = WriteBudget st"
  "Trace (foldl (\<lambda>s ev. logEvent ev s) st evs) = Trace st @ evs"
  by (induction evs arbitrary: st) (simp_all add: logEvent_fields)

lemma downloadFailure_kinds:
  assumes "downloadFailure outcome = Some f"
  shows "(f = NotFoundFailure) = (snd outcome = Some NotFound)
         \<and> (f = NotFoundFailure \<or> (\<exists>cause. f = Internal cause))"
proof -
  obtain chunks e err where o: "outcome = ((chunks, e), err)"
    by (metis surj_pair)
  show ?thesis
  proof (cases err)
    case None
    with o assms show ?thesis by (cases chunks; cases e) auto
  next
    case (Some x)
    with o assms show ?thesis by (cases x) auto
  qed
qed

lemma filter_no_response:
  "list_all (\<lambda>ev. \<not> isResponse ev) evs \<Longrightarrow> filter isResponse evs = []"
  by (induction evs) simp_all

text \<open>
  C2. A download whose storage outcome is a failure (an error of the collaborator call,
  or a first read that fails), on a response not yet committed: the status is the one
  the translation gives, 404 for \<open>NotFound\<close> and 500 for anything else; the response
  events of the run are one header, first, and for status 500 the fixed text of that
  status (nothing when the client is gone), which does not depend on the cause.
\<close>

theorem Download_failure_translation:
  assumes "Code st = None"
    and "downloadFailure (DownloadBLOB dc user blobRef) = Some f"
  shows "Code (Download dc user blobRef st) = Some (statusOf f)
         \<and> (f = NotFoundFailure) = (snd (DownloadBLOB dc user blobRef) = Some NotFound)
         \<and> statusOf f = (if f = NotFoundFailure then 404 else 500)
         \<and> filter isResponse (newEvents st (Download dc user blobRef st)) =
             HeaderWritten (statusOf f) #
               (if f = NotFoundFailure \<or> WriteBudget st = Some 0 then []
                else [BodyWritten (''Internal Server Error'' @ [CHR 0x0A])])
         \<and> RespBody (Download dc user blobRef st) =
             RespBody st @
               (if f = NotFoundFailure \<or> WriteBudget st = Some 0 then []
                else ''Internal Server Error'' @ [CHR 0x0A])"
proof -
  let ?res = "Download dc user blobRef st"
  obtain reads where r: "?res = respondFailure f (foldl (\<lambda>s ev. logEvent ev s) st (CallDownload user blobRef # reads))"
    and q: "list_all (\<lambda>ev. \<not> isResponse ev) reads"
    using Download_failure_events [OF assms] by blast
  let ?st2 = "foldl (\<lambda>s ev. logEvent ev s) st (CallDownload user blobRef # reads)"
  have c2: "Code ?st2 = None"
    using assms(1) by (simp only: foldl_logEvent_fields)
  have k: "(f = NotFoundFailure) = (snd (DownloadBLOB dc user blobRef) = Some NotFound)"
    and k': "f = NotFoundFailure \<or> (\<exists>cause. f = Internal cause)"
    using downloadFailure_kinds [OF assms(2)] by (blast+)
  have s: "statusOf f = (if f = NotFoundFailure then 404 else 500)"
    using k' by (auto simp: StatusNotFound_def StatusInternalServerError_def)
  have stext: "f \<noteq> NotFoundFailure \<Longrightarrow> StatusText (statusOf f) = ''Internal Server Error''"
    using k' by (auto simp: StatusInternalServerError_def StatusText_def)
  have code: "Code ?res = Some (statusOf f)"
    using Code_respondFailure [OF c2, of f] r by simp
  have "Trace ?res = Trace st @ (CallDownload user blobRef # reads) @ HeaderWritten (statusOf f) #
          (if f = NotFoundFailure \<or> WriteBudget st = Some 0 then []
           else [BodyWritten (''Internal Server Error'' @ [CHR 0x0A])])"
    using Trace_respondFailure [OF c2, of f] r stext
    by (simp only: foldl_logEvent_fields) (simp split: if_splits)
  then have "newEvents st ?res = (CallDownload user blobRef # reads) @ HeaderWritten (statusOf f) #
          (if f = NotFoundFailure \<or> WriteBudget st = Some 0 then []
           else [BodyWritten (''Internal Server Error'' @ [CHR 0x0A])])"
    by (rule newEvents_append)
  then have ev: "filter isResponse (newEvents st ?res) = HeaderWritten (statusOf f) #
          (if f = NotFoundFailure \<or> WriteBudget st = Some 0 then []
           else [BodyWritten (''Internal Server Error'' @ [CHR 0x0A])])"
    using filter_no_response [OF q] by simp
  have body: "RespBody ?res = RespBody st @
          (if f = NotFoundFailure \<or> WriteBudget st = Some 0 then []
           else ''Internal Server Error'' @ [CHR 0x0A])"
    using RespBody_respondFailure [of f ?st2] r stext
    by (simp only: foldl_logEvent_fields) (simp split: if_splits)
  show ?thesis
    using code k s ev body by blast
qed

theorem Download_failure_translation_witness:
  "Code freshState = None
   \<and> downloadFailure (DownloadBLOB (mockDataController (strings_NewReader ''1'') (Some NotFound))
        testUser ''myblob'') = Some NotFoundFailure
   \<and> Code (Download (mockDataController (strings_NewReader ''1'') (Some NotFound))
        testUser ''myblob'' freshState) = Some 404
   \<and> downloadFailure (DownloadBLOB
        (mockDataController (strings_NewReader ''1'') (Some (Other ''some error'')))
        testUser ''myblob'') = Some (Internal ''some error'')
   \<and> Code (Download (mockDataController (strings_NewReader ''1'') (Some (Other ''some error'')))
        testUser ''myblob'' freshState) = Some 500
   \<and> RespBody (Download (mockDataController (strings_NewReader ''1'') (Some (Other ''some error'')))
        testUser ''myblob'' freshState) = ''Internal Server Error'' @ [CHR 0x0A]"
proof -
  have fresh: "Code freshState = None"
    by (simp add: freshState_def)
  have nf: "downloadFailure (DownloadBLOB (mockDataController (strings_NewReader ''1'') (Some NotFound))
        testUser ''myblob'') = Some NotFoundFailure"
    by (simp add: mockDataController_def)
  have other: "downloadFailure (DownloadBLOB
        (mockDataController (strings_NewReader ''1'') (Some (Other ''some error'')))
        testUser ''myblob'') = Some (Internal ''some error'')"
    by (simp add: mockDataController_def)
  have budget: "WriteBudget freshState = None" "RespBody freshState = []"
    by (simp_all add: freshState_def)
  show ?thesis
    using Download_failure_translation [OF fresh nf] Download_failure_translation [OF fresh other]
    by (simp add: fresh nf other budget)
qed

lemma copyRemainder_EOF_connected:
  "Code st = Some code \<Longrightarrow> WriteBudget st = None \<Longrightarrow>
   copyRemainder cs EOF st =
     st\<lparr>RespBody := RespBody st @ concat cs,
        Trace := Trace st @ concat (map (\<lambda>c. [ReadOk c, BodyWritten c]) cs) @ [ReadEnd]\<rparr>"
proof (induction cs arbitrary: st)
  case Nil
  then show ?case by (simp add: logEvent_def)
next
  case (Cons c cs)
  let ?st' = "st\<lparr>RespBody := RespBody st @ c, Trace := Trace st @ [ReadOk c, BodyWritten c]\<rparr>"
  have w: "Write c (logEvent (ReadOk c) st) = (?st', True)"
    using Cons.prems by (simp add: Write_committed logEvent_def)
  have "copyRemainder cs EOF ?st' =
          ?st'\<lparr>RespBody := RespBody ?st' @ concat cs,
               Trace := Trace ?st' @ concat (map (\<lambda>c. [ReadOk c, BodyWritten c]) cs) @ [ReadEnd]\<rparr>"
    using Cons.prems by (intro Cons.IH) simp_all
  with w show ?case by simp
qed

lemma filter_isBodyWritten_copied:
  "filter isBodyWritten (concat (map (\<lambda>c. [ReadOk c, BodyWritten c]) cs)) = map BodyWritten cs"
  by (induction cs) simp_all

lemma Download_success:
  assumes "Code st = None" and "WriteBudget st = None"
    and "DownloadBLOB dc user blobRef = ((cs, EOF), None)"
  shows "Code (Download dc user blobRef st) = Some 200
         \<and> RespBody (Download dc user blobRef st) = RespBody st @ concat cs
         \<and> filter isBodyWritten (newEvents st (Download dc user blobRef st)) = map BodyWritten cs"
proof (cases cs)
  case Nil
  have "Download dc user blobRef st =
          st\<lparr>Code := Some 200,
             Trace := Trace st @ [CallDownload user blobRef, ReadEnd, HeaderWritten 200]\<rparr>"
    using assms Nil
    by (simp add: Download_empty_stream WriteHeader_fresh logEvent_def StatusOK_def)
  then show ?thesis
    using Nil by (simp add: newEvents_def)
next
  case (Cons c cs')
  let ?st2 = "WriteHeader StatusOK (logEvent (ReadOk c) (logEvent (CallDownload user blobRef) st))"
  let ?st3 = "st\<lparr>Code := Some 200, RespBody := RespBody st @ c,
                 Trace := Trace st @ [CallDownload user blobRef, ReadOk c, HeaderWritten 200,
                                      BodyWritten c]\<rparr>"
  have s2: "?st2 = st\<lparr>Code := Some 200,
                 Trace := Trace st @ [CallDownload user blobRef, ReadOk c, HeaderWritten 200]\<rparr>"
    using assms(1) by (simp add: WriteHeader_fresh logEvent_def StatusOK_def)
  have w: "Write c ?st2 = (?st3, True)"
    unfolding s2 using assms(2) by (simp add: Write_committed [where c = 200])
  have "Download dc user blobRef st = copyRemainder cs' EOF ?st3"
    using assms(3) Cons w by (simp add: Download_streaming)
  also have "\<dots> = ?st3\<lparr>RespBody := RespBody ?st3 @ concat cs',
                     Trace := Trace ?st3 @ concat (map (\<lambda>c. [ReadOk c, BodyWritten c]) cs') @ [ReadEnd]\<rparr>"
    using assms(2) by (intro copyRemainder_EOF_connected [where code = 200]) simp_all
  finally show ?thesis
    using Cons by (simp add: newEvents_def filter_isBodyWritten_copied)
qed

text \<open>
  C4. A download request with a valid credential, on a response not yet committed and a
  client that stays connected, when the collaborator returns without error a stream that
  yields its chunks and ends: the status is 200, the body is the chunks in order, and the
  writes to the client are those chunks, one write each, none lost and none duplicated.
  For the stream of the test, which yields \<open>1\<close>, the body is \<open>1\<close>.
\<close>

theorem Download_success_body:
  assumes "Code st = None" and "WriteBudget st = None"
    and "AuthVerify s (getTokenFromRequest r) = Inr user"
    and "DownloadBLOB (SvcDataController s) user (PathVar r) = ((cs, EOF), None)"
  shows "Code (authenticateHandlerFunc s (DownloadHandler s) r st) = Some 200
         \<and> RespBody (authenticateHandlerFunc s (DownloadHandler s) r st) = RespBody st @ concat cs
         \<and> filter isBodyWritten (newEvents st (authenticateHandlerFunc s (DownloadHandler s) r st))
             = map BodyWritten cs"
proof -
  let ?st1 = "st\<lparr>CtxUser := Some user\<rparr>"
  have run: "authenticateHandlerFunc s (DownloadHandler s) r st
               = Download (SvcDataController s) user (PathVar r) ?st1"
    using assms(3) by (simp add: authenticateHandlerFunc_def DownloadHandler_def)
  have "Code ?st1 = None" and "WriteBudget ?st1 = None"
    using assms(1,2) by simp_all
  from Download_success [OF this assms(4)] run show ?thesis
    by (simp add: newEvents_def)
qed

theorem Download_success_body_witness:
  "Code freshState = None \<and> WriteBudget freshState = None
   \<and> AuthVerify (testService (mockDataController (strings_NewReader ''1'') None))
        (getTokenFromRequest (testRequest ''GET'' ''valid'' [])) = Inr testUser
   \<and> DownloadBLOB (SvcDataController (testService (mockDataController (strings_NewReader ''1'') None)))
        testUser (PathVar (testRequest ''GET'' ''valid'' [])) = (([''1''], EOF), None)
   \<and> Code (authenticateHandlerFunc (testService (mockDataController (strings_NewReader ''1'') None))
        (DownloadHandler (testService (mockDataController (strings_NewReader ''1'') None)))
        (testRequest ''GET'' ''valid'' []) freshState) = Some 200
   \<and> RespBody (authenticateHandlerFunc (testService (mockDataController (strings_NewReader ''1'') None))
        (DownloadHandler (testService (mockDataController (strings_NewReader ''1'') None)))
        (testRequest ''GET'' ''valid'' []) freshState) = ''1''"
proof -
  let ?s = "testService (mockDataController (strings_NewReader ''1'') None)"
  let ?r = "testRequest ''GET'' ''valid'' []"
  have fresh: "Code freshState = None" "WriteBudget freshState = None"
    by (simp_all add: freshState_def)
  have good: "AuthVerify ?s (getTokenFromRequest ?r) = Inr testUser"
    by (simp add: getToken_testRequest testService_def mockVerify_def)
  have rd: "DownloadBLOB (SvcDataController ?s) testUser (PathVar ?r) = (([''1''], EOF), None)"
    by (simp add: testService_def mockDataController_def strings_NewReader_def)
  have body: "RespBody freshState = []"
    by (simp add: freshState_def)
  show ?thesis
    using Download_success_body [OF fresh good rd]
    by (simp add: fresh good rd body)
qed

section \<open>The upload handler\<close>







text \<open>
  Why the actual size cannot be judged within the cap: a handler whose answer depends on
  the declared length and on the first \<open>n\<close> bytes of the body, and on no byte beyond
  them, gives a body of \<open>n\<close> bytes and the same body with one byte more the same answer.
\<close>

lemma capped_read_cannot_tell:
  fixes h :: "Request \<Rightarrow> 'a"
  assumes "\<And>q q'. q' = q\<lparr>Body := Body q'\<rparr> \<Longrightarrow> take n (Body q) = take n (Body q') \<Longrightarrow> h q = h q'"
    and "length b = n"
  shows "h (r\<lparr>Body := b\<rparr>) = h (r\<lparr>Body := b @ [c]\<rparr>)"
  using assms(2) by (intro assms(1)) simp_all




end
